theory Spec2Isabelle
  imports Complex_Main "HOL-Library.Product_Lexorder"
begin

section \<open>Timelapse generator: curation and assembly pipeline\<close>

text \<open>
  A shallow embedding of \<^verbatim>\<open>scripts/generate_timelapse_last7days\<close>: the timestamp codec
  (\<^verbatim>\<open>extract_ts_from_name\<close>, \<^verbatim>\<open>ts_to_datetime_utc\<close>), the gatherer (\<^verbatim>\<open>gather_images\<close>),
  the frame classifier (\<^verbatim>\<open>is_bad_frame\<close>), the window computation
  (\<^verbatim>\<open>compute_window_utc\<close>) and the driver (\<^verbatim>\<open>main\<close>).

  Names are byte strings; \<^verbatim>\<open>\d\<close> is taken to match the ASCII digits only, so names that
  carry non-ASCII decimal digits are outside the model.
\<close>

subsection \<open>Exceptions\<close>

datatype error = ValueError | OverflowError | RuntimeError | AttributeError

subsection \<open>Naive datetimes of the standard library\<close>

text \<open>
  A naive datetime is the tuple (year, month, day, hour, minute, second, microsecond);
  the library compares two of them field by field in this order, which is the
  lexicographic order on the tuple.
\<close>

type_synonym date = "int \<times> int \<times> int"
type_synonym datetime = "int \<times> int \<times> int \<times> int \<times> int \<times> int \<times> int"

definition dt_year :: "datetime \<Rightarrow> int" where
  "dt_year dt = fst dt"

definition dt_date :: "datetime \<Rightarrow> date" where
  "dt_date dt = (case dt of (y, m, d, _) \<Rightarrow> (y, m, d))"

definition is_leap :: "int \<Rightarrow> bool" where
  "is_leap y = (y mod 4 = 0 \<and> (y mod 100 \<noteq> 0 \<or> y mod 400 = 0))"

definition days_in_month :: "int \<Rightarrow> int \<Rightarrow> int" where
  "days_in_month y m =
     (if m = 2 then (if is_leap y then 29 else 28)
      else if m = 4 \<or> m = 6 \<or> m = 9 \<or> m = 11 then 30 else 31)"

text \<open>
  The constructor \<^verbatim>\<open>datetime(year, month, day, hour, minute, second)\<close>: it raises
  ValueError when a field is out of range, and the microsecond defaults to 0.
\<close>

definition mk_datetime :: "int \<Rightarrow> int \<Rightarrow> int \<Rightarrow> int \<Rightarrow> int \<Rightarrow> int \<Rightarrow> error + datetime" where
  "mk_datetime y mo d h mi s =
     (if 1 \<le> y \<and> y \<le> 9999 \<and> 1 \<le> mo \<and> mo \<le> 12 \<and> 1 \<le> d \<and> d \<le> days_in_month y mo
         \<and> 0 \<le> h \<and> h \<le> 23 \<and> 0 \<le> mi \<and> mi \<le> 59 \<and> 0 \<le> s \<and> s \<le> 59
      then Inr (y, mo, d, h, mi, s, 0)
      else Inl ValueError)"

subsection \<open>Strings\<close>

definition is_digit :: "char \<Rightarrow> bool" where
  "is_digit c = (c \<in> set ''0123456789'')"

definition digit_val :: "char \<Rightarrow> int" where
  "digit_val c = of_char c - 48"

text \<open>The slice \<^verbatim>\<open>s[a:b]\<close> for \<open>0 \<le> a \<le> b\<close>; it never raises, it is cut at the end of \<open>s\<close>.\<close>

definition slice :: "nat \<Rightarrow> nat \<Rightarrow> 'a list \<Rightarrow> 'a list" where
  "slice a b s = take (b - a) (drop a s)"

text \<open>
  \<^verbatim>\<open>int(s)\<close> on a string of decimal digits. Any other string is ValueError in the model;
  the built-in also reads a sign and surrounding white space, which no slice of a
  matched token contains.
\<close>

definition py_int :: "string \<Rightarrow> error + int" where
  "py_int s =
     (if s \<noteq> [] \<and> list_all is_digit s
      then Inr (foldl (\<lambda>acc c. 10 * acc + digit_val c) 0 s)
      else Inl ValueError)"

subsection \<open>Filename timestamp patterns\<close>

text \<open>
  \<^verbatim>\<open>PAT_8 = (\d{8}_\d{6})\<close> and \<^verbatim>\<open>PAT_6 = (\d{6}_\d{6})\<close>. Both are of the shape
  \<open>n\<close> digits, an underscore, six digits, so a match attempt at one position has no
  choice to make; \<^verbatim>\<open>search\<close> returns the leftmost position where the attempt succeeds.
\<close>

definition match_here :: "nat \<Rightarrow> string \<Rightarrow> bool" where
  "match_here n s =
     (n + 7 \<le> length s \<and> list_all is_digit (take n s) \<and> s ! n = CHR ''_''
      \<and> list_all is_digit (slice (n + 1) (n + 7) s))"

fun pat_search :: "nat \<Rightarrow> string \<Rightarrow> string option" where
  "pat_search n [] = None"
| "pat_search n (c # cs) =
     (if match_here n (c # cs) then Some (take (n + 7) (c # cs)) else pat_search n cs)"

definition PAT_8 :: "string \<Rightarrow> string option" where
  "PAT_8 = pat_search 8"

definition PAT_6 :: "string \<Rightarrow> string option" where
  "PAT_6 = pat_search 6"

subsection \<open>Timestamp codec\<close>

text \<open>
  \<^verbatim>\<open>extract_ts_from_name\<close>: the token in the form YYMMDD_HHMMSS, or None. The matched
  token has one underscore, at index 8, so \<^verbatim>\<open>split("_")\<close> gives its first eight and its
  last six characters.
\<close>

definition extract_ts_from_name :: "string \<Rightarrow> string option" where
  "extract_ts_from_name name =
     (case PAT_8 name of
        Some tok \<Rightarrow>
          (let date8 = take 8 tok; time6 = drop 9 tok;
               yy = slice 2 4 date8; mm = slice 4 6 date8; dd = slice 6 8 date8
           in Some (yy @ mm @ dd @ ''_'' @ time6))
      | None \<Rightarrow>
          (case PAT_6 name of
             Some tok \<Rightarrow> Some tok
           | None \<Rightarrow> None))"

text \<open>\<^verbatim>\<open>ts_to_datetime_utc\<close>: YYMMDD_HHMMSS to a naive UTC datetime of the years 2000 to 2099.\<close>

definition ts_to_datetime_utc :: "string \<Rightarrow> error + datetime" where
  "ts_to_datetime_utc tsYY =
     (case py_int (slice 0 2 tsYY) of Inl e \<Rightarrow> Inl e | Inr YY \<Rightarrow>
     (let year = 2000 + YY in
     (case py_int (slice 2 4 tsYY) of Inl e \<Rightarrow> Inl e | Inr MM \<Rightarrow>
     (case py_int (slice 4 6 tsYY) of Inl e \<Rightarrow> Inl e | Inr DD \<Rightarrow>
     (case py_int (slice 7 9 tsYY) of Inl e \<Rightarrow> Inl e | Inr hh \<Rightarrow>
     (case py_int (slice 9 11 tsYY) of Inl e \<Rightarrow> Inl e | Inr mm \<Rightarrow>
     (case py_int (slice 11 13 tsYY) of Inl e \<Rightarrow> Inl e | Inr ss \<Rightarrow>
        mk_datetime year MM DD hh mm ss)))))))"

text \<open>What the gatherer does with one name: no token, a raised error, or an instant.\<close>

definition decode_name :: "string \<Rightarrow> (error + datetime) option" where
  "decode_name name = map_option ts_to_datetime_utc (extract_ts_from_name name)"

subsection \<open>Gatherer\<close>

text \<open>
  The storage, as the gatherer sees it: for each of the two roots, None when the directory
  does not exist, otherwise its entries in the order the listing yields them
  (\<^verbatim>\<open>IMAGES_ROOT.rglob("*")\<close>, recursive, and \<^verbatim>\<open>LEGACY_5MIN.iterdir()\<close>, flat).
\<close>

record dir_entry =
  e_path :: string
  e_is_file :: bool

record file_system =
  images_root :: "dir_entry list option"
  legacy_5min :: "dir_entry list option"

text \<open>\<^verbatim>\<open>p.name\<close>: the last component of the path.\<close>

definition path_name :: "string \<Rightarrow> string" where
  "path_name p = rev (takeWhile (\<lambda>c. c \<noteq> CHR ''/'') (rev p))"

text \<open>
  \<^verbatim>\<open>p.suffix\<close>: the name from its last dot on, when that dot is neither the first nor the
  last character of the name; the empty string otherwise.
\<close>

definition path_suffix :: "string \<Rightarrow> string" where
  "path_suffix p =
     (let name = path_name p;
          ext = rev (takeWhile (\<lambda>c. c \<noteq> CHR ''.'') (rev name))
      in if CHR ''.'' \<in> set name \<and> ext \<noteq> [] \<and> length ext + 1 < length name
         then CHR ''.'' # ext else [])"

text \<open>\<^verbatim>\<open>str.lower\<close> on the ASCII letters.\<close>

definition lower_char :: "char \<Rightarrow> char" where
  "lower_char c =
     (if (65::nat) \<le> of_char c \<and> of_char c \<le> (90::nat) then char_of (of_char c + (32::nat)) else c)"

definition lower :: "string \<Rightarrow> string" where
  "lower s = map lower_char s"

definition exts :: "string list" where
  "exts = [''.jpg'', ''.jpeg'', ''.png'', ''.webp'', ''.bmp'', ''.tif'', ''.tiff'']"

type_synonym image_record = "datetime \<times> string"

text \<open>
  One of the two \<^verbatim>\<open>for p in ...\<close> loops of \<^verbatim>\<open>gather_images\<close>, appending to
  \<^verbatim>\<open>candidates\<close>. An error raised by \<^verbatim>\<open>ts_to_datetime_utc\<close> is not caught: it
  leaves the loop and the function.
\<close>

fun scan :: "dir_entry list \<Rightarrow> image_record list \<Rightarrow> error + image_record list" where
  "scan [] candidates = Inr candidates"
| "scan (p # ps) candidates =
     (if e_is_file p \<and> lower (path_suffix (e_path p)) \<in> set exts then
        (case extract_ts_from_name (path_name (e_path p)) of
           None \<Rightarrow> scan ps candidates
         | Some tsYY \<Rightarrow>
             if tsYY = [] then scan ps candidates
             else (case ts_to_datetime_utc tsYY of
                     Inl e \<Rightarrow> Inl e
                   | Inr dt \<Rightarrow> scan ps (candidates @ [(dt, e_path p)])))
      else scan ps candidates)"

text \<open>The candidates in discovery order, before \<^verbatim>\<open>candidates.sort\<close>.\<close>

definition discovered :: "file_system \<Rightarrow> error + image_record list" where
  "discovered fs =
     (case (case images_root fs of None \<Rightarrow> Inr [] | Some es \<Rightarrow> scan es []) of
        Inl e \<Rightarrow> Inl e
      | Inr c1 \<Rightarrow> (case legacy_5min fs of None \<Rightarrow> Inr c1 | Some es \<Rightarrow> scan es c1))"

text \<open>
  \<^verbatim>\<open>candidates.sort(key=lambda x: x[0])\<close>: the library's sort is stable and compares the
  keys only; \<open>sort_key\<close> is a stable sort on the keys.
\<close>

definition gather_images :: "file_system \<Rightarrow> error + image_record list" where
  "gather_images fs =
     (case discovered fs of
        Inl e \<Rightarrow> Inl e
      | Inr candidates \<Rightarrow> Inr (sort_key fst candidates))"

subsection \<open>Bad-frame detection\<close>

definition MIN_DIM :: nat where "MIN_DIM = 100"
definition MIN_STD :: real where "MIN_STD = 8"
definition BLACK_LEVEL :: real where "BLACK_LEVEL = 15"
definition WHITE_LEVEL :: real where "WHITE_LEVEL = 240"
definition PERCENT_BLACK :: real where "PERCENT_BLACK = 55 / 100"
definition PERCENT_WHITE :: real where "PERCENT_WHITE = 55 / 100"
definition DOMINANT_BIN_RATIO :: real where "DOMINANT_BIN_RATIO = 55 / 100"
definition HALF_DIFF_THRESH :: real where "HALF_DIFF_THRESH = 60"
definition LAPL_VAR_MAX :: real where "LAPL_VAR_MAX = 1000000"

text \<open>
  A decoded frame is represented by its shape and by the values that the array and
  image library calls of \<^verbatim>\<open>is_bad_frame\<close> measure on its grayscale version:
  \<^item> \<open>gray_std\<close>: \<^verbatim>\<open>float(np.std(gray))\<close>;
  \<^item> \<open>black_count\<close>: \<^verbatim>\<open>np.sum(gray <= BLACK_LEVEL)\<close>, \<open>white_count\<close>: \<^verbatim>\<open>np.sum(gray >= WHITE_LEVEL)\<close>;
  \<^item> \<open>hist_max\<close>: \<^verbatim>\<open>hist.max()\<close> of the 256-bin histogram;
  \<^item> \<open>left_mean\<close>, \<open>right_mean\<close>: the means of the two halves;
  \<^item> \<open>lap_var\<close>: \<^verbatim>\<open>float(cv2.Laplacian(gray, cv2.CV_64F).var())\<close>.
  The measured floats are read as the real numbers they denote. A ratio
  \<^verbatim>\<open>float(count) / total\<close> is the exact quotient: the rounded quotient compares with the
  constant 0.55 as the exact one does for every frame of fewer than \<open>2^50\<close> pixels. The
  difference of the two means is the exact difference.
\<close>

record frame =
  height :: nat
  width :: nat
  gray_std :: real
  black_count :: nat
  white_count :: nat
  hist_max :: nat
  left_mean :: real
  right_mean :: real
  lap_var :: real

text \<open>The reason, with the value that the source formats into the string; \<open>no_reason\<close> is \<^verbatim>\<open>""\<close>.\<close>

datatype reason =
    unreadable
  | too_small nat nat
  | low_std real
  | mostly_black real
  | mostly_white real
  | dominant_bin real
  | half_blank
  | half_white
  | excessive_lap real
  | no_reason

definition black_ratio :: "frame \<Rightarrow> real" where
  "black_ratio f = real (black_count f) / real (height f * width f)"

definition white_ratio :: "frame \<Rightarrow> real" where
  "white_ratio f = real (white_count f) / real (height f * width f)"

definition dom_ratio :: "frame \<Rightarrow> real" where
  "dom_ratio f = real (hist_max f) / real (height f * width f)"

text \<open>
  \<^verbatim>\<open>is_bad_frame\<close>; the argument None is the frame that \<^verbatim>\<open>cv2.imread\<close> could not read.
  In the source the tests for half_blank and half_white are nested in the test of the
  difference of the two means and fall through to the Laplacian test; here each of the two
  carries the outer test with it.
\<close>

definition is_bad_frame :: "frame option \<Rightarrow> bool \<times> reason" where
  "is_bad_frame frame =
     (case frame of
        None \<Rightarrow> (True, unreadable)
      | Some f \<Rightarrow>
          let h = height f; w = width f in
          if h < MIN_DIM \<or> w < MIN_DIM then (True, too_small w h)
          else if gray_std f < MIN_STD then (True, low_std (gray_std f))
          else if black_ratio f \<ge> PERCENT_BLACK then (True, mostly_black (black_ratio f))
          else if white_ratio f \<ge> PERCENT_WHITE then (True, mostly_white (white_ratio f))
          else if dom_ratio f \<ge> DOMINANT_BIN_RATIO then (True, dominant_bin (dom_ratio f))
          else if \<bar>left_mean f - right_mean f\<bar> > HALF_DIFF_THRESH
                  \<and> (left_mean f \<le> BLACK_LEVEL + 10 \<or> right_mean f \<le> BLACK_LEVEL + 10)
               then (True, half_blank)
          else if \<bar>left_mean f - right_mean f\<bar> > HALF_DIFF_THRESH
                  \<and> (left_mean f \<ge> WHITE_LEVEL - 10 \<or> right_mean f \<ge> WHITE_LEVEL - 10)
               then (True, half_white)
          else if lap_var f > LAPL_VAR_MAX then (True, excessive_lap (lap_var f))
          else (False, no_reason))"

subsection \<open>Calendar arithmetic of the standard library\<close>

text \<open>
  Dates and datetimes are shifted through the proleptic Gregorian ordinal, day 1 being
  0001-01-01; a result outside the years 1 to 9999 raises OverflowError.
\<close>

definition MAXORDINAL :: int where
  "MAXORDINAL = 3652059"

definition days_before_year :: "int \<Rightarrow> int" where
  "days_before_year y = (y - 1) * 365 + (y - 1) div 4 - (y - 1) div 100 + (y - 1) div 400"

definition days_before_month :: "int \<Rightarrow> int \<Rightarrow> int" where
  "days_before_month y m = sum_list (map (days_in_month y) [1 .. m - 1])"

definition ymd2ord :: "date \<Rightarrow> int" where
  "ymd2ord dte = (case dte of (y, m, d) \<Rightarrow> days_before_year y + days_before_month y m + d)"

definition ord2ymd :: "int \<Rightarrow> date" where
  "ord2ymd n0 =
     (let n = n0 - 1;
          n400 = n div 146097; n = n mod 146097;
          n100 = n div 36524; n = n mod 36524;
          n4 = n div 1461; n = n mod 1461;
          n1 = n div 365; n = n mod 365;
          year = n400 * 400 + 1 + n100 * 100 + n4 * 4 + n1
      in if n1 = 4 \<or> n100 = 4 then (year - 1, 12, 31)
         else
           let leapyear = (n1 = 3 \<and> (n4 \<noteq> 24 \<or> n100 = 3));
               month = (n + 50) div 32;
               preceding = days_before_month 1 month + (if month > 2 \<and> leapyear then 1 else 0)
           in if preceding > n
              then let month' = month - 1;
                       preceding' = preceding - (days_in_month 1 month'
                                                 + (if month' = 2 \<and> leapyear then 1 else 0))
                   in (year, month', n - preceding' + 1)
              else (year, month, n - preceding + 1))"

text \<open>\<^verbatim>\<open>d - timedelta(days=k)\<close> on a date.\<close>

definition date_sub_days :: "date \<Rightarrow> int \<Rightarrow> error + date" where
  "date_sub_days dte k =
     (let ordinal = ymd2ord dte - k
      in if 0 < ordinal \<and> ordinal \<le> MAXORDINAL then Inr (ord2ymd ordinal) else Inl OverflowError)"

text \<open>\<^verbatim>\<open>dt + timedelta(seconds=k)\<close> on a datetime; the microsecond is kept.\<close>

definition dt_add_seconds :: "datetime \<Rightarrow> int \<Rightarrow> error + datetime" where
  "dt_add_seconds dt k =
     (case dt of (y, mo, d, h, mi, s, us) \<Rightarrow>
        let total = h * 3600 + mi * 60 + s + k;
            days = ymd2ord (y, mo, d) + total div 86400;
            rem = total mod 86400
        in if 0 < days \<and> days \<le> MAXORDINAL
           then (case ord2ymd days of (y', mo', d') \<Rightarrow>
                   Inr (y', mo', d', rem div 3600, (rem mod 3600) div 60, rem mod 60, us))
           else Inl OverflowError)"

subsection \<open>Window computation\<close>

text \<open>
  An aware datetime is its local fields together with the offset from UTC, in seconds, of
  the time zone object attached to it. Arithmetic with a timedelta shifts the local fields
  and keeps the attached object; \<^verbatim>\<open>astimezone(pytz.utc)\<close> subtracts the offset.
\<close>

type_synonym aware = "datetime \<times> int"

text \<open>
  What the run reads from outside the program:
  \<^item> \<open>utcnow\<close>: the value of \<^verbatim>\<open>datetime.utcnow()\<close>;
  \<^item> \<open>tz_utcoffset\<close>: the offset of \<^verbatim>\<open>Europe/Madrid\<close> that the time zone library
    attaches when it converts the given UTC datetime (\<^verbatim>\<open>astimezone(tz)\<close>);
  \<^item> \<open>tz_bare_offset\<close>: the offset of the time zone object itself, which
    \<^verbatim>\<open>replace(tzinfo=tz)\<close> attaches;
  \<^item> \<open>sunrise\<close>: the entry \<^verbatim>\<open>"sunrise"\<close> of \<^verbatim>\<open>sun(loc.observer, date=..., tzinfo=...)\<close>
    for the configured location, None when the entry is absent;
  \<^item> \<open>imread\<close>: \<^verbatim>\<open>cv2.imread\<close> on a path, None for a file it cannot decode.
\<close>

record environment =
  utcnow :: datetime
  tz_utcoffset :: "datetime \<Rightarrow> int"
  tz_bare_offset :: int
  sunrise :: "date \<Rightarrow> aware option"
  imread :: "string \<Rightarrow> frame option"

definition MINUTES_BEFORE_SUNRISE :: int where
  "MINUTES_BEFORE_SUNRISE = 5"

text \<open>\<^verbatim>\<open>max(...)\<close> and \<^verbatim>\<open>min(...)\<close> of a sequence; ValueError on the empty one.\<close>

definition py_max :: "'a::linorder list \<Rightarrow> error + 'a" where
  "py_max xs = (case xs of [] \<Rightarrow> Inl ValueError | x # rest \<Rightarrow> Inr (foldl max x rest))"

definition py_min :: "'a::linorder list \<Rightarrow> error + 'a" where
  "py_min xs = (case xs of [] \<Rightarrow> Inl ValueError | x # rest \<Rightarrow> Inr (foldl min x rest))"

text \<open>
  Lines 142 to 154 of \<^verbatim>\<open>compute_window_utc\<close>: the start of the window, in UTC and in local
  time. It does not read the catalog.
\<close>

definition window_start :: "environment \<Rightarrow> error + datetime \<times> aware" where
  "window_start env =
     (case dt_add_seconds (utcnow env) (tz_utcoffset env (utcnow env)) of
        Inl e \<Rightarrow> Inl e
      | Inr now_local \<Rightarrow>
     (case date_sub_days (dt_date now_local) 7 of
        Inl e \<Rightarrow> Inl e
      | Inr earliest_day \<Rightarrow>
          let sunrise_local =
                (case sunrise env earliest_day of
                   Some s \<Rightarrow> s
                 | None \<Rightarrow> (case earliest_day of (y, m, d) \<Rightarrow>
                             ((y, m, d, 6, 0, 0, 0), tz_bare_offset env)))
          in (case dt_add_seconds (fst sunrise_local) (- (MINUTES_BEFORE_SUNRISE * 60)) of
                Inl e \<Rightarrow> Inl e
              | Inr start_fields \<Rightarrow>
                  let start_local = (start_fields, snd sunrise_local)
                  in (case dt_add_seconds (fst start_local) (- snd start_local) of
                        Inl e \<Rightarrow> Inl e
                      | Inr start_utc \<Rightarrow> Inr (start_utc, start_local)))))"

text \<open>\<^verbatim>\<open>compute_window_utc\<close>: (start_utc, end_utc, start_local).\<close>

definition compute_window_utc ::
    "environment \<Rightarrow> image_record list \<Rightarrow> error + datetime \<times> datetime \<times> aware" where
  "compute_window_utc env images =
     (if images = [] then Inl RuntimeError
      else case window_start env of
             Inl e \<Rightarrow> Inl e
           | Inr (start_utc, start_local) \<Rightarrow>
               (case py_max (map fst images) of
                  Inl e \<Rightarrow> Inl e
                | Inr end_utc \<Rightarrow> Inr (start_utc, end_utc, start_local)))"

subsection \<open>Driver\<close>

text \<open>
  What a run leaves behind when \<^verbatim>\<open>main\<close> returns: the exit status, the printed lines and
  the video writer, None when \<^verbatim>\<open>cv2.VideoWriter\<close> was never constructed, otherwise its
  frame size (width, height) and the frames written, in order. The three lines of a
  successful run are kept as their arguments instead of the formatted text. Creating the
  output directory, naming the output file and releasing the writer are left out.
  \<open>imread\<close> is a function: a file read twice in one run decodes to the same frame.
\<close>

datatype line =
    Msg string
  | Saved aware datetime
  | UsedSkipped nat nat
  | FrameRange datetime datetime

record run_result =
  exit_code :: nat
  printed :: "line list"
  video :: "(nat \<times> nat \<times> frame list) option"

text \<open>\<^verbatim>\<open>[(ts,p) for ts,p in images if start_utc <= ts <= end_utc]\<close>\<close>

definition in_window :: "datetime \<Rightarrow> datetime \<Rightarrow> image_record list \<Rightarrow> image_record list" where
  "in_window start_utc end_utc images =
     filter (\<lambda>(ts, p). start_utc \<le> ts \<and> ts \<le> end_utc) images"

text \<open>The first loop of \<^verbatim>\<open>main\<close>: the first frame of the window that is not bad, or None.\<close>

fun first_good :: "environment \<Rightarrow> image_record list \<Rightarrow> frame option" where
  "first_good env [] = None"
| "first_good env ((ts, p) # rest) =
     (let f = imread env p; (bad, why) = is_bad_frame f
      in if \<not> bad then f else first_good env rest)"

text \<open>
  \<^verbatim>\<open>cv2.resize(f, (w,h))\<close>: a frame of the requested shape. The statistics of the resized
  picture are not read again and are left as they were.
\<close>

definition resize :: "frame \<Rightarrow> nat \<Rightarrow> nat \<Rightarrow> frame" where
  "resize f w h = f\<lparr>height := h, width := w\<rparr>"

text \<open>
  The second loop of \<^verbatim>\<open>main\<close>, over the window, on the state
  (used, skipped, used_times, frames written). Reading the shape of a frame that is None
  would raise AttributeError.
\<close>

fun assemble ::
    "environment \<Rightarrow> nat \<Rightarrow> nat \<Rightarrow> image_record list \<Rightarrow> nat \<times> nat \<times> datetime list \<times> frame list
     \<Rightarrow> error + nat \<times> nat \<times> datetime list \<times> frame list" where
  "assemble env h w [] st = Inr st"
| "assemble env h w ((ts, p) # rest) (used, skipped, used_times, out) =
     (let f = imread env p; (bad, why) = is_bad_frame f
      in if bad then assemble env h w rest (used, skipped + 1, used_times, out)
         else (case f of
                 None \<Rightarrow> Inl AttributeError
               | Some fr \<Rightarrow>
                   let fr' = (if (height fr, width fr) \<noteq> (h, w) then resize fr w h else fr)
                   in assemble env h w rest (used + 1, skipped, used_times @ [ts], out @ [fr'])))"

definition main :: "environment \<Rightarrow> file_system \<Rightarrow> error + run_result" where
  "main env fs =
     (case gather_images fs of
        Inl e \<Rightarrow> Inl e
      | Inr images \<Rightarrow>
     if images = [] then
       Inr \<lparr>exit_code = 1,
            printed = [Msg ''No images found under /images/** or /images_5min''],
            video = None\<rparr>
     else
     (case compute_window_utc env images of
        Inl e \<Rightarrow> Inl e
      | Inr (start_utc, end_utc, start_local) \<Rightarrow>
     let window = in_window start_utc end_utc images in
     if window = [] then
       Inr \<lparr>exit_code = 1,
            printed = [Msg ''No images within the computed 7-day window.''],
            video = None\<rparr>
     else
     (case first_good env window of
        None \<Rightarrow>
          Inr \<lparr>exit_code = 1, printed = [Msg ''No valid frames in window.''], video = None\<rparr>
      | Some first \<Rightarrow>
     let h = height first; w = width first in
     (case assemble env h w window (0, 0, [], []) of
        Inl e \<Rightarrow> Inl e
      | Inr (used, skipped, used_times, out) \<Rightarrow>
     if used = 0 then
       Inr \<lparr>exit_code = 1,
            printed = [Msg ''No usable frames after filtering.''],
            video = Some (w, h, out)\<rparr>
     else
     (case py_min used_times of
        Inl e \<Rightarrow> Inl e
      | Inr lo \<Rightarrow>
     (case py_max used_times of
        Inl e \<Rightarrow> Inl e
      | Inr hi \<Rightarrow>
       Inr \<lparr>exit_code = 0,
            printed = [Saved start_local end_utc, UsedSkipped used skipped, FrameRange lo hi],
            video = Some (w, h, out)\<rparr>))))))"

subsection \<open>The three fatal conditions of a run\<close>

text \<open>The records of a window whose frame is read and not judged bad.\<close>

definition accepted :: "environment \<Rightarrow> image_record list \<Rightarrow> image_record list" where
  "accepted env window = filter (\<lambda>(ts, p). \<not> fst (is_bad_frame (imread env p))) window"

text \<open>No input images found: the gatherer returns the empty catalog.\<close>

definition no_input :: "file_system \<Rightarrow> bool" where
  "no_input fs = (case gather_images fs of Inl e \<Rightarrow> False | Inr images \<Rightarrow> images = [])"

text \<open>No images inside the computed window.\<close>

definition no_images_in_window :: "environment \<Rightarrow> file_system \<Rightarrow> bool" where
  "no_images_in_window env fs =
     (case gather_images fs of
        Inl e \<Rightarrow> False
      | Inr images \<Rightarrow>
          images \<noteq> [] \<and>
          (case compute_window_utc env images of
             Inl e \<Rightarrow> False
           | Inr (start_utc, end_utc, start_local) \<Rightarrow> in_window start_utc end_utc images = []))"

text \<open>No frame in the window accepted by the classifier.\<close>

definition no_frame_accepted :: "environment \<Rightarrow> file_system \<Rightarrow> bool" where
  "no_frame_accepted env fs =
     (case gather_images fs of
        Inl e \<Rightarrow> False
      | Inr images \<Rightarrow>
          images \<noteq> [] \<and>
          (case compute_window_utc env images of
             Inl e \<Rightarrow> False
           | Inr (start_utc, end_utc, start_local) \<Rightarrow>
               in_window start_utc end_utc images \<noteq> [] \<and>
               accepted env (in_window start_utc end_utc images) = []))"

text \<open>An exception leaves the run: raised while gathering, or while computing the window.\<close>

definition run_raises :: "environment \<Rightarrow> file_system \<Rightarrow> error \<Rightarrow> bool" where
  "run_raises env fs e =
     (case gather_images fs of
        Inl e' \<Rightarrow> e' = e
      | Inr images \<Rightarrow> images \<noteq> [] \<and> compute_window_utc env images = Inl e)"

subsection \<open>The classifier as an ordered list of checks\<close>

text \<open>
  The eight checks, each one on its own: the reason it gives for a frame, or None when it
  does not fire. The conditions are those of \<^verbatim>\<open>is_bad_frame\<close>; the list fixes the order
  unreadable, too_small, low_std, mostly_black, mostly_white, dominant_bin,
  half_blank/half_white, excessive_lap.
\<close>

definition check_unreadable :: "frame option \<Rightarrow> reason option" where
  "check_unreadable frame = (case frame of None \<Rightarrow> Some unreadable | Some f \<Rightarrow> None)"

definition check_too_small :: "frame option \<Rightarrow> reason option" where
  "check_too_small frame =
     (case frame of None \<Rightarrow> None
      | Some f \<Rightarrow> if height f < MIN_DIM \<or> width f < MIN_DIM
                  then Some (too_small (width f) (height f)) else None)"

definition check_low_std :: "frame option \<Rightarrow> reason option" where
  "check_low_std frame =
     (case frame of None \<Rightarrow> None
      | Some f \<Rightarrow> if gray_std f < MIN_STD then Some (low_std (gray_std f)) else None)"

definition check_mostly_black :: "frame option \<Rightarrow> reason option" where
  "check_mostly_black frame =
     (case frame of None \<Rightarrow> None
      | Some f \<Rightarrow> if black_ratio f \<ge> PERCENT_BLACK
                  then Some (mostly_black (black_ratio f)) else None)"

definition check_mostly_white :: "frame option \<Rightarrow> reason option" where
  "check_mostly_white frame =
     (case frame of None \<Rightarrow> None
      | Some f \<Rightarrow> if white_ratio f \<ge> PERCENT_WHITE
                  then Some (mostly_white (white_ratio f)) else None)"

definition check_dominant_bin :: "frame option \<Rightarrow> reason option" where
  "check_dominant_bin frame =
     (case frame of None \<Rightarrow> None
      | Some f \<Rightarrow> if dom_ratio f \<ge> DOMINANT_BIN_RATIO then Some (dominant_bin (dom_ratio f)) else None)"

definition check_half :: "frame option \<Rightarrow> reason option" where
  "check_half frame =
     (case frame of None \<Rightarrow> None
      | Some f \<Rightarrow>
          if \<bar>left_mean f - right_mean f\<bar> > HALF_DIFF_THRESH then
            (if left_mean f \<le> BLACK_LEVEL + 10 \<or> right_mean f \<le> BLACK_LEVEL + 10
             then Some half_blank
             else if left_mean f \<ge> WHITE_LEVEL - 10 \<or> right_mean f \<ge> WHITE_LEVEL - 10
             then Some half_white
             else None)
          else None)"

definition check_excessive_lap :: "frame option \<Rightarrow> reason option" where
  "check_excessive_lap frame =
     (case frame of None \<Rightarrow> None
      | Some f \<Rightarrow> if lap_var f > LAPL_VAR_MAX then Some (excessive_lap (lap_var f)) else None)"

definition checks_in_order :: "(frame option \<Rightarrow> reason option) list" where
  "checks_in_order =
     [check_unreadable, check_too_small, check_low_std, check_mostly_black,
      check_mostly_white, check_dominant_bin, check_half, check_excessive_lap]"

text \<open>Run the checks from the left and stop at the first one that fires.\<close>

fun first_failure :: "(frame option \<Rightarrow> reason option) list \<Rightarrow> frame option \<Rightarrow> reason option" where
  "first_failure [] frame = None"
| "first_failure (c # cs) frame =
     (case c frame of Some r \<Rightarrow> Some r | None \<Rightarrow> first_failure cs frame)"

definition classify_in_order :: "frame option \<Rightarrow> bool \<times> reason" where
  "classify_in_order frame =
     (case first_failure checks_in_order frame of
        None \<Rightarrow> (False, no_reason)
      | Some r \<Rightarrow> (True, r))"

subsection \<open>Concrete runs\<close>

text \<open>An ordinary daylight frame of 640 by 480 pixels.\<close>

definition daylight_frame :: frame where
  "daylight_frame =
     \<lparr>height = 480, width = 640, gray_std = 52, black_count = 1200, white_count = 900,
      hist_max = 4000, left_mean = 110, right_mean = 121, lap_var = 350\<rparr>"

text \<open>
  A frame of 100 by 100 pixels whose 55 left columns are 0 and whose 45 right columns are
  255: exactly 5500 of its 10000 pixels are at or below the black level.
\<close>

definition frame_55_percent_black :: frame where
  "frame_55_percent_black =
     \<lparr>height = 100, width = 100, gray_std = 12686 / 100, black_count = 5500,
      white_count = 4500, hist_max = 5500, left_mean = 0, right_mean = 2295 / 10,
      lap_var = 13005 / 10\<rparr>"

text \<open>
  A lossless image of 3 by 3 pixels in a checkerboard of 0 and 255 with 0 in the corners:
  5 of its 9 pixels are black, the left column has mean 85 and the two right columns
  127.5. With the reflecting border of \<^verbatim>\<open>cv2.Laplacian\<close> every 0 has four neighbours
  255 and every 255 four neighbours 0, so the Laplacian is 1020 on the five black pixels
  and -1020 on the four white ones, of variance \<open>1020\<^sup>2 * 80 / 81\<close>, above the bound.
\<close>

definition checkerboard_3x3 :: frame where
  "checkerboard_3x3 =
     \<lparr>height = 3, width = 3, gray_std = 12671 / 100, black_count = 5, white_count = 4,
      hist_max = 5, left_mean = 85, right_mean = 255 / 2, lap_var = 9248000 / 9\<rparr>"

text \<open>
  A run on 2025-11-03 at 12:00 UTC. Madrid is one hour east of UTC on the days involved;
  the sunrise provider answers 07:37:12 local time; the only readable file is the capture
  of 2025-11-01.
\<close>

definition env_nov3 :: environment where
  "env_nov3 =
     \<lparr>utcnow = (2025, 11, 3, 12, 0, 0, 123456),
      tz_utcoffset = (\<lambda>_. 3600),
      tz_bare_offset = - 900,
      sunrise = (\<lambda>(y, m, d). Some ((y, m, d, 7, 37, 12, 0), 3600)),
      imread = (\<lambda>p. if p = ''images/w44/cam_20251101_120000.jpg''
                      then Some daylight_frame else None)\<rparr>"

definition fs_one_capture :: file_system where
  "fs_one_capture =
     \<lparr>images_root = Some [\<lparr>e_path = ''images/w44'', e_is_file = False\<rparr>,
                          \<lparr>e_path = ''images/w44/cam_20251101_120000.jpg'', e_is_file = True\<rparr>,
                          \<lparr>e_path = ''images/w44/notes.jpg'', e_is_file = True\<rparr>],
      legacy_5min = None\<rparr>"

text \<open>The same storage with one more file, whose token has month 13.\<close>

definition fs_month_13 :: file_system where
  "fs_month_13 =
     \<lparr>images_root = Some [\<lparr>e_path = ''images/w44'', e_is_file = False\<rparr>,
                          \<lparr>e_path = ''images/w44/cam_20251101_120000.jpg'', e_is_file = True\<rparr>,
                          \<lparr>e_path = ''images/w44/notes.jpg'', e_is_file = True\<rparr>,
                          \<lparr>e_path = ''images/w44/cam_20251301_120000.jpg'', e_is_file = True\<rparr>],
      legacy_5min = None\<rparr>"

text \<open>A catalog whose only capture dates from 2020.\<close>

definition catalog_2020 :: "image_record list" where
  "catalog_2020 = [((2020, 1, 1, 0, 0, 0, 0), ''images_5min/cam_200101_000000.jpg'')]"

text \<open>Two captures of the same second, found in this order, and an earlier one found last.\<close>

definition fs_duplicates :: file_system where
  "fs_duplicates =
     \<lparr>images_root = Some [\<lparr>e_path = ''images/w44/b_20251101_120000.jpg'', e_is_file = True\<rparr>,
                          \<lparr>e_path = ''images/w44/a_20251101_120000.jpg'', e_is_file = True\<rparr>],
      legacy_5min = Some [\<lparr>e_path = ''images_5min/cam_251031_080000.PNG'', e_is_file = True\<rparr>]\<rparr>"

text \<open>A window of two records: the readable capture and a file that cannot be decoded.\<close>

definition window_two :: "image_record list" where
  "window_two =
     [((2025, 11, 1, 12, 0, 0, 0), ''images/w44/cam_20251101_120000.jpg''),
      ((2025, 11, 2, 12, 0, 0, 0), ''images/w44/cam_20251102_120000.jpg'')]"

section \<open>Verified properties\<close>

subsection \<open>Pattern search and the codec\<close>

lemma pat_search_short: "length s < n + 7 \<Longrightarrow> pat_search n s = None"
  by (induction s) (auto simp: match_here_def)

lemma match_here_take: "match_here n s \<Longrightarrow> match_here n (take (n + 7) s)"
proof -
  assume m: "match_here n s"
  then have len: "n + 7 \<le> length s" by (simp add: match_here_def)
  have a: "take n (take (n + 7) s) = take n s" by (simp add: min_def)
  have b: "take (n + 7) s ! n = s ! n" by simp
  have c: "slice (n + 1) (n + 7) (take (n + 7) s) = slice (n + 1) (n + 7) s"
    by (simp add: slice_def drop_take)
  from m len show ?thesis unfolding match_here_def a b c by simp
qed

lemma pat_search_Some:
  "pat_search n s = Some tok \<Longrightarrow> match_here n tok \<and> length tok = n + 7"
proof (induction s)
  case Nil
  then show ?case by simp
next
  case (Cons c cs)
  show ?case
  proof (cases "match_here n (c # cs)")
    case True
    with Cons.prems have tok: "tok = take (n + 7) (c # cs)" by simp
    from True have len: "n + 7 \<le> length (c # cs)" by (simp add: match_here_def)
    from True len show ?thesis
      unfolding tok using match_here_take [of n "c # cs"] by simp
  next
    case False
    with Cons show ?thesis by simp
  qed
qed

lemma pat_search_self:
  "match_here n tok \<Longrightarrow> length tok = n + 7 \<Longrightarrow> pat_search n tok = Some tok"
  by (cases tok) auto

lemma list15:
  assumes "length (tok :: 'a list) = 15"
  obtains c0 c1 c2 c3 c4 c5 c6 c7 c8 c9 c10 c11 c12 c13 c14
  where "tok = [c0, c1, c2, c3, c4, c5, c6, c7, c8, c9, c10, c11, c12, c13, c14]"
  using assms by (auto simp: eval_nat_numeral length_Suc_conv)

lemma token8_shape:
  assumes "PAT_8 name = Some tok"
  obtains c0 c1 c2 c3 c4 c5 c6 c7 c9 c10 c11 c12 c13 c14
  where "tok = [c0, c1, c2, c3, c4, c5, c6, c7, CHR ''_'', c9, c10, c11, c12, c13, c14]"
    and "list_all is_digit [c0, c1, c2, c3, c4, c5, c6, c7, c9, c10, c11, c12, c13, c14]"
proof -
  from assms have m: "match_here 8 tok" and len: "length tok = 15"
    using pat_search_Some [of 8 name tok] by (simp_all add: PAT_8_def)
  from len obtain c0 c1 c2 c3 c4 c5 c6 c7 c8 c9 c10 c11 c12 c13 c14
    where tok: "tok = [c0, c1, c2, c3, c4, c5, c6, c7, c8, c9, c10, c11, c12, c13, c14]"
    by (rule list15)
  from m have "c8 = CHR ''_''"
    and "list_all is_digit [c0, c1, c2, c3, c4, c5, c6, c7, c9, c10, c11, c12, c13, c14]"
    unfolding tok match_here_def slice_def by simp_all
  with tok show thesis by (intro that) simp_all
qed

lemma extract_8:
  assumes "PAT_8 name = Some tok"
  shows "extract_ts_from_name name = Some (drop 2 tok)"
proof -
  from assms obtain c0 c1 c2 c3 c4 c5 c6 c7 c9 c10 c11 c12 c13 c14
    where tok: "tok = [c0, c1, c2, c3, c4, c5, c6, c7, CHR ''_'', c9, c10, c11, c12, c13, c14]"
    by (rule token8_shape)
  show ?thesis
    unfolding extract_ts_from_name_def assms by (simp add: tok slice_def)
qed

lemma extract_6:
  assumes "PAT_8 name = None" and "PAT_6 name = Some tok"
  shows "extract_ts_from_name name = Some tok"
  using assms by (simp add: extract_ts_from_name_def)

lemma six_form_alone:
  assumes "PAT_8 name = Some tok"
  shows "PAT_8 (drop 2 tok) = None \<and> PAT_6 (drop 2 tok) = Some (drop 2 tok)"
proof -
  from assms obtain c0 c1 c2 c3 c4 c5 c6 c7 c9 c10 c11 c12 c13 c14
    where tok: "tok = [c0, c1, c2, c3, c4, c5, c6, c7, CHR ''_'', c9, c10, c11, c12, c13, c14]"
    and dig: "list_all is_digit [c0, c1, c2, c3, c4, c5, c6, c7, c9, c10, c11, c12, c13, c14]"
    by (rule token8_shape)
  have "PAT_8 (drop 2 tok) = None"
    unfolding PAT_8_def by (rule pat_search_short) (simp add: tok)
  moreover have "PAT_6 (drop 2 tok) = Some (drop 2 tok)"
    unfolding PAT_6_def using dig by (intro pat_search_self) (simp_all add: tok match_here_def slice_def)
  ultimately show ?thesis ..
qed

lemma py_int_two_digits:
  assumes "is_digit a" and "is_digit b"
  shows "py_int [a, b] = Inr (10 * digit_val a + digit_val b)"
    and "0 \<le> 10 * digit_val a + digit_val b" and "10 * digit_val a + digit_val b \<le> 99"
  using assms by (auto simp: py_int_def is_digit_def digit_val_def)

lemma mk_datetime_year: "mk_datetime y mo d h mi s = Inr dt \<Longrightarrow> dt_year dt = y"
  by (auto simp: mk_datetime_def dt_year_def split: if_splits)

lemma ts_year:
  assumes "ts_to_datetime_utc ts = Inr dt" and "py_int (slice 0 2 ts) = Inr yy"
  shows "dt_year dt = 2000 + yy"
  using assms by (auto simp: ts_to_datetime_utc_def Let_def split: sum.splits dest: mk_datetime_year)


lemma two_digit_year:
  assumes "PAT_8 name = Some tok"
  shows "\<exists>yy. py_int (slice 2 4 tok) = Inr yy \<and> 0 \<le> yy \<and> yy \<le> 99
           \<and> (\<forall>dt. ts_to_datetime_utc (drop 2 tok) = Inr dt \<longrightarrow> dt_year dt = 2000 + yy)"
proof -
  from assms obtain c0 c1 c2 c3 c4 c5 c6 c7 c9 c10 c11 c12 c13 c14
    where tok: "tok = [c0, c1, c2, c3, c4, c5, c6, c7, CHR ''_'', c9, c10, c11, c12, c13, c14]"
    and dig: "list_all is_digit [c0, c1, c2, c3, c4, c5, c6, c7, c9, c10, c11, c12, c13, c14]"
    by (rule token8_shape)
  from dig have d: "is_digit c2" "is_digit c3" by simp_all
  let ?yy = "10 * digit_val c2 + digit_val c3"
  have s1: "slice 2 4 tok = [c2, c3]" and s2: "slice 0 2 (drop 2 tok) = [c2, c3]"
    by (simp_all add: tok slice_def)
  have "py_int (slice 2 4 tok) = Inr ?yy" "0 \<le> ?yy" "?yy \<le> 99"
    unfolding s1 using py_int_two_digits [OF d] by simp_all
  moreover have "\<forall>dt. ts_to_datetime_utc (drop 2 tok) = Inr dt \<longrightarrow> dt_year dt = 2000 + ?yy"
    using ts_year [of "drop 2 tok" _ ?yy] py_int_two_digits(1) [OF d] unfolding s2 by blast
  ultimately show ?thesis by blast
qed

text \<open>
  C6. When the 8-digit pattern matches a name with token \<open>tok\<close>, the codec yields the
  6-digit form \<open>drop 2 tok\<close>; the name decodes exactly as the 6-digit form alone does, and
  as every name in which only the 6-digit pattern matches that form; the embedded 2-digit
  year \<open>yy\<close> (digits 3 and 4 of the date) is a number from 0 to 99, and every decoded
  instant has the year \<open>2000 + yy\<close>. Decoding raises for both forms alike when the
  digits are not a calendar date-time.
\<close>

theorem eight_digit_token_decodes_as_six_digit_form:
  assumes "PAT_8 name = Some tok"
  shows "extract_ts_from_name name = Some (drop 2 tok)
       \<and> decode_name name = decode_name (drop 2 tok)
       \<and> (\<forall>name6. PAT_8 name6 = None \<and> PAT_6 name6 = Some (drop 2 tok)
             \<longrightarrow> decode_name name6 = decode_name name)
       \<and> (\<exists>yy. py_int (slice 2 4 tok) = Inr yy \<and> 0 \<le> yy \<and> yy \<le> 99
             \<and> (\<forall>dt. decode_name name = Some (Inr dt) \<longrightarrow> dt_year dt = 2000 + yy))"
proof -
  have e8: "extract_ts_from_name name = Some (drop 2 tok)"
    using assms by (rule extract_8)
  have six: "PAT_8 (drop 2 tok) = None" "PAT_6 (drop 2 tok) = Some (drop 2 tok)"
    using six_form_alone [OF assms] by simp_all
  have e6: "extract_ts_from_name name6 = Some (drop 2 tok)"
    if "PAT_8 name6 = None" "PAT_6 name6 = Some (drop 2 tok)" for name6
    using that by (rule extract_6)
  have d: "decode_name name = Some (ts_to_datetime_utc (drop 2 tok))"
    by (simp add: decode_name_def e8)
  have d6: "decode_name name6 = decode_name name"
    if "PAT_8 name6 = None \<and> PAT_6 name6 = Some (drop 2 tok)" for name6
    using that e6 [of name6] by (simp add: decode_name_def e8)
  from d6 [of "drop 2 tok"] six have same: "decode_name name = decode_name (drop 2 tok)"
    by simp
  from two_digit_year [OF assms] obtain yy where
    yy: "py_int (slice 2 4 tok) = Inr yy" "0 \<le> yy" "yy \<le> 99"
        "\<forall>dt. ts_to_datetime_utc (drop 2 tok) = Inr dt \<longrightarrow> dt_year dt = 2000 + yy"
    by blast
  have "\<forall>dt. decode_name name = Some (Inr dt) \<longrightarrow> dt_year dt = 2000 + yy"
    using yy(4) by (simp add: d)
  with yy(1-3) e8 same d6 show ?thesis by blast
qed

lemma PAT_8_example: "PAT_8 ''cam_20251025_142015.jpg'' = Some ''20251025_142015''"
  by code_simp

lemma decode_example: "decode_name ''cam_20251025_142015.jpg'' = Some (Inr (2025, 10, 25, 14, 20, 15, 0))"
  by code_simp

theorem eight_digit_token_decodes_as_six_digit_form_witness:
  "PAT_8 ''cam_20251025_142015.jpg'' = Some ''20251025_142015''
   \<and> decode_name ''251025_142015'' = Some (Inr (2025, 10, 25, 14, 20, 15, 0))"
proof -
  have h: "PAT_8 ''cam_20251025_142015.jpg'' = Some ''20251025_142015''"
    by (rule PAT_8_example)
  from eight_digit_token_decodes_as_six_digit_form [OF h]
  have "decode_name ''cam_20251025_142015.jpg'' = decode_name (drop 2 ''20251025_142015'')"
    by blast
  then have "decode_name ''251025_142015'' = Some (Inr (2025, 10, 25, 14, 20, 15, 0))"
    by (simp add: decode_example)
  with h show ?thesis by blast
qed

text \<open>
  C10. The first two date digits of an 8-digit token are discarded: two names whose tokens
  differ only in those digits yield the same canonical form and decode alike, with the
  year 2000 plus the third and fourth digits. So 19991025_142015 and 20991025_142015 both
  decode to 2099-10-25 14:20:15.
\<close>

theorem century_digits_discarded:
  assumes "PAT_8 name1 = Some (a # b # r)" and "PAT_8 name2 = Some (c # d # r)"
  shows "extract_ts_from_name name1 = Some r \<and> extract_ts_from_name name2 = Some r
       \<and> decode_name name1 = decode_name name2
       \<and> (\<exists>yy. py_int (take 2 r) = Inr yy
             \<and> (\<forall>dt. decode_name name1 = Some (Inr dt) \<longrightarrow> dt_year dt = 2000 + yy))"
proof -
  have e1: "extract_ts_from_name name1 = Some r"
    using extract_8 [OF assms(1)] by simp
  have e2: "extract_ts_from_name name2 = Some r"
    using extract_8 [OF assms(2)] by simp
  have same: "decode_name name1 = decode_name name2"
    by (simp add: decode_name_def e1 e2)
  from two_digit_year [OF assms(1)] obtain yy where
    yy: "py_int (slice 2 4 (a # b # r)) = Inr yy"
        "\<forall>dt. ts_to_datetime_utc (drop 2 (a # b # r)) = Inr dt \<longrightarrow> dt_year dt = 2000 + yy"
    by blast
  have "slice 2 4 (a # b # r) = take 2 r" by (simp add: slice_def)
  with yy(1) have y1: "py_int (take 2 r) = Inr yy" by simp
  have "\<forall>dt. decode_name name1 = Some (Inr dt) \<longrightarrow> dt_year dt = 2000 + yy"
    using yy(2) by (simp add: decode_name_def e1)
  with y1 e1 e2 same show ?thesis by blast
qed

lemma PAT_8_1999: "PAT_8 ''19991025_142015'' = Some (CHR ''1'' # CHR ''9'' # ''991025_142015'')"
  by code_simp

lemma PAT_8_2099: "PAT_8 ''20991025_142015'' = Some (CHR ''2'' # CHR ''0'' # ''991025_142015'')"
  by code_simp

lemma decode_2099: "decode_name ''20991025_142015'' = Some (Inr (2099, 10, 25, 14, 20, 15, 0))"
  by code_simp

theorem century_digits_discarded_witness:
  "PAT_8 ''19991025_142015'' = Some ''19991025_142015''
   \<and> PAT_8 ''20991025_142015'' = Some ''20991025_142015''
   \<and> decode_name ''19991025_142015'' = Some (Inr (2099, 10, 25, 14, 20, 15, 0))"
proof -
  from century_digits_discarded [OF PAT_8_1999 PAT_8_2099]
  have "decode_name ''19991025_142015'' = decode_name ''20991025_142015''"
    by blast
  then have "decode_name ''19991025_142015'' = Some (Inr (2099, 10, 25, 14, 20, 15, 0))"
    by (simp only: decode_2099)
  with PAT_8_1999 PAT_8_2099 show ?thesis by simp
qed

subsection \<open>Classifier\<close>

lemmas thresholds =
  MIN_DIM_def MIN_STD_def BLACK_LEVEL_def WHITE_LEVEL_def PERCENT_BLACK_def PERCENT_WHITE_def
  DOMINANT_BIN_RATIO_def HALF_DIFF_THRESH_def LAPL_VAR_MAX_def

lemmas check_defs =
  check_unreadable_def check_too_small_def check_low_std_def check_mostly_black_def
  check_mostly_white_def check_dominant_bin_def check_half_def check_excessive_lap_def

lemma is_bad_frame_in_order: "is_bad_frame frame = classify_in_order frame"
proof (cases frame)
  case None
  then show ?thesis
    by (simp add: is_bad_frame_def classify_in_order_def checks_in_order_def check_unreadable_def)
next
  case (Some f)
  then show ?thesis
    unfolding is_bad_frame_def classify_in_order_def checks_in_order_def check_defs Let_def
    by simp
qed

lemma near_black_verdict:
  assumes "black_ratio f \<ge> PERCENT_BLACK"
  shows "is_bad_frame (Some f) =
           (if height f < MIN_DIM \<or> width f < MIN_DIM
            then (True, too_small (width f) (height f))
            else if gray_std f < MIN_STD then (True, low_std (gray_std f))
            else (True, mostly_black (black_ratio f)))"
  using assms by (simp add: is_bad_frame_def Let_def)

lemma near_black_never_lap:
  assumes "black_ratio f \<ge> PERCENT_BLACK"
  shows "snd (is_bad_frame (Some f)) \<noteq> excessive_lap x"
  using assms by (simp add: is_bad_frame_def Let_def)

lemma checkerboard_ratio: "black_ratio checkerboard_3x3 = 5 / 9"
  by (simp add: black_ratio_def checkerboard_3x3_def)

lemma checkerboard_verdict: "is_bad_frame (Some checkerboard_3x3) = (True, too_small 3 3)"
  by (simp add: is_bad_frame_def checkerboard_3x3_def MIN_DIM_def)

text \<open>
  C3, as stated, fails: the 3 by 3 checkerboard is near-black (5 of 9 pixels) and its
  Laplacian variance is above the upper bound, yet its reason is too_small, the check
  that comes second, and not mostly_black.
\<close>

theorem near_black_noisy_frame_rejected_as_too_small:
  "black_ratio checkerboard_3x3 \<ge> PERCENT_BLACK
   \<and> lap_var checkerboard_3x3 > LAPL_VAR_MAX
   \<and> is_bad_frame (Some checkerboard_3x3) = (True, too_small 3 3)
   \<and> snd (is_bad_frame (Some checkerboard_3x3)) \<noteq> mostly_black (black_ratio checkerboard_3x3)"
proof -
  have "black_ratio checkerboard_3x3 \<ge> PERCENT_BLACK"
    by (simp add: checkerboard_ratio PERCENT_BLACK_def)
  moreover have "lap_var checkerboard_3x3 > LAPL_VAR_MAX"
    by (simp add: checkerboard_3x3_def LAPL_VAR_MAX_def)
  ultimately show ?thesis
    by (simp add: checkerboard_verdict)
qed

text \<open>
  C3, amended. \<^verbatim>\<open>is_bad_frame\<close> is the run of the eight checks in the order unreadable,
  too_small, low_std, mostly_black, mostly_white, dominant_bin, half_blank/half_white,
  excessive_lap, stopped at the first one that fires, so a rejected frame has the one
  reason of that check. A decoded frame that is near-black is rejected whatever its
  Laplacian variance, and never as excessive_lap: as too_small when a dimension is below
  the minimum, else as low_std when the standard deviation is below the minimum, and as
  mostly_black in every other case, that is, whenever it reaches the black check.
\<close>

theorem checks_run_in_fixed_order:
  "is_bad_frame frame = classify_in_order frame
   \<and> (\<forall>f. frame = Some f \<and> black_ratio f \<ge> PERCENT_BLACK
          \<longrightarrow> is_bad_frame frame =
                (if height f < MIN_DIM \<or> width f < MIN_DIM
                 then (True, too_small (width f) (height f))
                 else if gray_std f < MIN_STD then (True, low_std (gray_std f))
                 else (True, mostly_black (black_ratio f)))
              \<and> (\<forall>x. snd (is_bad_frame frame) \<noteq> excessive_lap x))"
  using is_bad_frame_in_order [of frame] near_black_verdict near_black_never_lap
  by blast

theorem checks_run_in_fixed_order_witness:
  "black_ratio checkerboard_3x3 \<ge> PERCENT_BLACK
   \<and> lap_var checkerboard_3x3 > LAPL_VAR_MAX
   \<and> is_bad_frame (Some checkerboard_3x3) = (True, too_small 3 3)
   \<and> black_ratio frame_55_percent_black \<ge> PERCENT_BLACK
   \<and> is_bad_frame (Some frame_55_percent_black) = (True, mostly_black (55 / 100))"
proof -
  have h1: "black_ratio checkerboard_3x3 \<ge> PERCENT_BLACK"
    by (simp add: checkerboard_ratio PERCENT_BLACK_def)
  have l1: "lap_var checkerboard_3x3 > LAPL_VAR_MAX"
    by (simp add: checkerboard_3x3_def LAPL_VAR_MAX_def)
  have r2: "black_ratio frame_55_percent_black = 55 / 100"
    by (simp add: black_ratio_def frame_55_percent_black_def)
  have h2: "black_ratio frame_55_percent_black \<ge> PERCENT_BLACK"
    by (simp add: r2 PERCENT_BLACK_def)
  from checks_run_in_fixed_order [of "Some checkerboard_3x3"] h1
  have "is_bad_frame (Some checkerboard_3x3) =
          (if height checkerboard_3x3 < MIN_DIM \<or> width checkerboard_3x3 < MIN_DIM
           then (True, too_small (width checkerboard_3x3) (height checkerboard_3x3))
           else if gray_std checkerboard_3x3 < MIN_STD
           then (True, low_std (gray_std checkerboard_3x3))
           else (True, mostly_black (black_ratio checkerboard_3x3)))"
    by blast
  then have v1: "is_bad_frame (Some checkerboard_3x3) = (True, too_small 3 3)"
    by (simp add: checkerboard_3x3_def MIN_DIM_def)
  from checks_run_in_fixed_order [of "Some frame_55_percent_black"] h2
  have "is_bad_frame (Some frame_55_percent_black) =
          (if height frame_55_percent_black < MIN_DIM \<or> width frame_55_percent_black < MIN_DIM
           then (True, too_small (width frame_55_percent_black) (height frame_55_percent_black))
           else if gray_std frame_55_percent_black < MIN_STD
           then (True, low_std (gray_std frame_55_percent_black))
           else (True, mostly_black (black_ratio frame_55_percent_black)))"
    by blast
  then have v2: "is_bad_frame (Some frame_55_percent_black) = (True, mostly_black (55 / 100))"
    by (simp add: r2) (simp add: frame_55_percent_black_def MIN_DIM_def MIN_STD_def)
  from h1 l1 v1 h2 v2 show ?thesis by blast
qed

text \<open>
  C8, as stated, fails: the frame with exactly 5500 of 10000 pixels at or below the black
  level reaches the black check with a ratio equal to the limit, not above it, and is
  rejected as mostly_black.
\<close>

theorem black_check_rejects_at_the_ratio:
  "black_ratio frame_55_percent_black = PERCENT_BLACK
   \<and> \<not> black_ratio frame_55_percent_black > PERCENT_BLACK
   \<and> MIN_DIM \<le> height frame_55_percent_black \<and> MIN_DIM \<le> width frame_55_percent_black
   \<and> MIN_STD \<le> gray_std frame_55_percent_black
   \<and> is_bad_frame (Some frame_55_percent_black) = (True, mostly_black (55 / 100))"
  by (simp add: is_bad_frame_def black_ratio_def frame_55_percent_black_def thresholds)

text \<open>
  C8, amended. A frame that reaches the black check (it is at least 100 pixels in both
  dimensions and its standard deviation is at least 8) is rejected as mostly_black exactly
  when the fraction of its pixels at or below the black level is at least the configured
  ratio; the reason carries that fraction.
\<close>

theorem mostly_black_iff_ratio_reached:
  assumes "MIN_DIM \<le> height f" and "MIN_DIM \<le> width f" and "MIN_STD \<le> gray_std f"
  shows "((\<exists>x. is_bad_frame (Some f) = (True, mostly_black x)) \<longleftrightarrow> black_ratio f \<ge> PERCENT_BLACK)
       \<and> (black_ratio f \<ge> PERCENT_BLACK
            \<longrightarrow> is_bad_frame (Some f) = (True, mostly_black (black_ratio f)))
       \<and> (black_ratio f < PERCENT_BLACK
            \<longrightarrow> (\<forall>x. snd (is_bad_frame (Some f)) \<noteq> mostly_black x))"
  using assms by (auto simp: is_bad_frame_def Let_def)

theorem mostly_black_iff_ratio_reached_witness:
  "MIN_DIM \<le> height frame_55_percent_black \<and> MIN_DIM \<le> width frame_55_percent_black
   \<and> MIN_STD \<le> gray_std frame_55_percent_black
   \<and> black_ratio frame_55_percent_black \<ge> PERCENT_BLACK
   \<and> (\<exists>x. is_bad_frame (Some frame_55_percent_black) = (True, mostly_black x))"
proof -
  have h1: "MIN_DIM \<le> height frame_55_percent_black"
    and h2: "MIN_DIM \<le> width frame_55_percent_black"
    and h3: "MIN_STD \<le> gray_std frame_55_percent_black"
    by (simp_all add: frame_55_percent_black_def MIN_DIM_def MIN_STD_def)
  have r: "black_ratio frame_55_percent_black \<ge> PERCENT_BLACK"
    by (simp add: black_ratio_def frame_55_percent_black_def PERCENT_BLACK_def)
  from mostly_black_iff_ratio_reached [OF h1 h2 h3] r
  have "\<exists>x. is_bad_frame (Some frame_55_percent_black) = (True, mostly_black x)"
    by blast
  with h1 h2 h3 r show ?thesis by blast
qed

subsection \<open>Assembly loop\<close>

lemma is_bad_None: "is_bad_frame None = (True, unreadable)"
  by (simp add: is_bad_frame_def)

lemma not_bad_Some: "\<not> fst (is_bad_frame f) \<Longrightarrow> \<exists>fr. f = Some fr"
  by (cases f) (simp_all add: is_bad_None)

lemma assemble_result:
  "\<exists>out'. assemble env h w window (used, skipped, used_times, out)
       = Inr (used + length (accepted env window),
              skipped + (length window - length (accepted env window)),
              used_times @ map fst (accepted env window), out')
     \<and> length out' = length out + length (accepted env window)"
proof (induction window arbitrary: used skipped used_times out)
  case Nil
  then show ?case by (simp add: accepted_def)
next
  case (Cons rec rest)
  obtain ts p where rec: "rec = (ts, p)" by (cases rec)
  obtain bad why where b: "is_bad_frame (imread env p) = (bad, why)"
    by (cases "is_bad_frame (imread env p)")
  have le: "length (accepted env rest) \<le> length rest"
    by (simp add: accepted_def)
  show ?case
  proof (cases bad)
    case True
    with b have acc: "accepted env (rec # rest) = accepted env rest"
      by (simp add: accepted_def rec)
    from Cons.IH [of used "skipped + 1" used_times out] True b le show ?thesis
      unfolding acc by (auto simp: rec)
  next
    case False
    with b have "\<not> fst (is_bad_frame (imread env p))" by simp
    then obtain fr where fr: "imread env p = Some fr"
      using not_bad_Some by blast
    from False b have acc: "accepted env (rec # rest) = (ts, p) # accepted env rest"
      by (simp add: accepted_def rec)
    let ?fr' = "if (height fr, width fr) \<noteq> (h, w) then resize fr w h else fr"
    from Cons.IH [of "used + 1" skipped "used_times @ [ts]" "out @ [?fr']"] False b fr le
    show ?thesis
      unfolding acc by (auto simp: rec Let_def)
  qed
qed

text \<open>
  C5. The assembly loop returns for every window, and its counters add up to the number of
  records of the window: each record is read once and raises exactly one of used and
  skipped. The used count is the number of accepted records, one frame is written and one
  instant is noted for each.
\<close>

theorem used_plus_skipped_is_window_length:
  "\<exists>used skipped used_times out.
     assemble env h w window (0, 0, [], []) = Inr (used, skipped, used_times, out)
     \<and> used + skipped = length window
     \<and> used = length (accepted env window)
     \<and> length out = used \<and> length used_times = used"
proof -
  have "length (accepted env window) \<le> length window"
    by (simp add: accepted_def)
  with assemble_result [of env h w window 0 0 "[]" "[]"] show ?thesis
    by auto
qed

lemma assemble_window_two:
  "assemble env_nov3 480 640 window_two (0, 0, [], []) =
     Inr (1, 1, [(2025, 11, 1, 12, 0, 0, 0)], [daylight_frame])"
  by (simp add: window_two_def env_nov3_def is_bad_frame_def daylight_frame_def
      black_ratio_def white_ratio_def dom_ratio_def
  MIN_DIM_def MIN_STD_def BLACK_LEVEL_def WHITE_LEVEL_def PERCENT_BLACK_def PERCENT_WHITE_def
  DOMINANT_BIN_RATIO_def HALF_DIFF_THRESH_def LAPL_VAR_MAX_def)

theorem used_plus_skipped_is_window_length_witness:
  "assemble env_nov3 480 640 window_two (0, 0, [], []) =
     Inr (1, 1, [(2025, 11, 1, 12, 0, 0, 0)], [daylight_frame])
   \<and> length window_two = 2 \<and> length (accepted env_nov3 window_two) = 1"
  using used_plus_skipped_is_window_length [of env_nov3 480 640 window_two]
  by (auto simp: assemble_window_two)

subsection \<open>Gatherer\<close>

text \<open>
  C7. Whatever the storage holds: when the scan raises, so does the gatherer; otherwise the
  catalog is non-decreasing by instant, it holds the discovered records and no others, and
  for every instant the records of that instant stand in the catalog in the order in
  which the scan discovered them.
\<close>

theorem gather_sorted_and_stable:
  "(\<forall>e. discovered fs = Inl e \<longrightarrow> gather_images fs = Inl e)
   \<and> (\<forall>c. discovered fs = Inr c \<longrightarrow>
         (\<exists>catalog. gather_images fs = Inr catalog
            \<and> sorted (map fst catalog)
            \<and> (\<forall>k. filter (\<lambda>r. fst r = k) catalog = filter (\<lambda>r. fst r = k) c)
            \<and> set catalog = set c \<and> length catalog = length c))"
  by (simp add: gather_images_def sort_key_stable)

lemma discovered_duplicates:
  "discovered fs_duplicates =
     Inr [((2025, 11, 1, 12, 0, 0, 0), ''images/w44/b_20251101_120000.jpg''),
          ((2025, 11, 1, 12, 0, 0, 0), ''images/w44/a_20251101_120000.jpg''),
          ((2025, 10, 31, 8, 0, 0, 0), ''images_5min/cam_251031_080000.PNG'')]"
  by code_simp

lemma gather_duplicates:
  "gather_images fs_duplicates =
     Inr [((2025, 10, 31, 8, 0, 0, 0), ''images_5min/cam_251031_080000.PNG''),
          ((2025, 11, 1, 12, 0, 0, 0), ''images/w44/b_20251101_120000.jpg''),
          ((2025, 11, 1, 12, 0, 0, 0), ''images/w44/a_20251101_120000.jpg'')]"
  by code_simp

theorem gather_sorted_and_stable_witness:
  "gather_images fs_duplicates =
     Inr [((2025, 10, 31, 8, 0, 0, 0), ''images_5min/cam_251031_080000.PNG''),
          ((2025, 11, 1, 12, 0, 0, 0), ''images/w44/b_20251101_120000.jpg''),
          ((2025, 11, 1, 12, 0, 0, 0), ''images/w44/a_20251101_120000.jpg'')]
   \<and> sorted (map fst (projr (gather_images fs_duplicates)))"
  using gather_sorted_and_stable [of fs_duplicates]
  by (auto simp: discovered_duplicates gather_duplicates)

subsection \<open>Window\<close>

lemma py_max_Max: "xs \<noteq> [] \<Longrightarrow> py_max xs = Inr (Max (set xs))"
proof (cases xs)
  case Nil
  assume "xs \<noteq> []" with Nil show ?thesis by simp
next
  case (Cons x rest)
  have "foldl max x rest = fold max rest x"
    by (simp add: foldl_conv_fold max.commute)
  moreover have "Max (set (x # rest)) = fold max rest x"
    by (rule Max.set_eq_fold)
  ultimately show ?thesis
    by (simp add: py_max_def Cons)
qed

lemma py_min_Min: "xs \<noteq> [] \<Longrightarrow> py_min xs = Inr (Min (set xs))"
proof (cases xs)
  case Nil
  assume "xs \<noteq> []" with Nil show ?thesis by simp
next
  case (Cons x rest)
  have "foldl min x rest = fold min rest x"
    by (simp add: foldl_conv_fold min.commute)
  moreover have "Min (set (x # rest)) = fold min rest x"
    by (rule Min.set_eq_fold)
  ultimately show ?thesis
    by (simp add: py_min_def Cons)
qed

text \<open>
  C4. For a non-empty catalog the window computation fails only when the computation of
  the start does, and otherwise returns that start together with the maximum instant of
  the catalog as the end. The end does not depend on the environment, so not on the
  reference time.
\<close>

theorem window_end_is_catalog_max:
  assumes "images \<noteq> []"
  shows "compute_window_utc env images =
           (case window_start env of
              Inl e \<Rightarrow> Inl e
            | Inr (start_utc, start_local) \<Rightarrow>
                Inr (start_utc, Max (fst ` set images), start_local))"
  using assms py_max_Max [of "map fst images"]
  by (simp add: compute_window_utc_def split: sum.splits)

lemma window_start_nov3:
  "window_start env_nov3 =
     Inr ((2025, 10, 27, 6, 32, 12, 0), ((2025, 10, 27, 7, 32, 12, 0), 3600))"
  by code_simp

theorem window_end_is_catalog_max_witness:
  "catalog_2020 \<noteq> []
   \<and> compute_window_utc env_nov3 catalog_2020 =
        Inr ((2025, 10, 27, 6, 32, 12, 0), (2020, 1, 1, 0, 0, 0, 0),
             ((2025, 10, 27, 7, 32, 12, 0), 3600))"
proof -
  have h: "catalog_2020 \<noteq> []" by (simp add: catalog_2020_def)
  have m: "Max (fst ` set catalog_2020) = (2020, 1, 1, 0, 0, 0, 0)"
    by (simp add: catalog_2020_def)
  from window_end_is_catalog_max [OF h, of env_nov3] h show ?thesis
    by (simp add: window_start_nov3 m)
qed

text \<open>
  C1, as stated, fails: on 2025-11-03 the start is 2025-10-27 06:32:12 UTC, five minutes
  before the sunrise of the day seven days earlier, and a catalog whose latest capture is
  of 2020-01-01 gives an end before that start.
\<close>

theorem window_start_can_exceed_end:
  "catalog_2020 \<noteq> []
   \<and> compute_window_utc env_nov3 catalog_2020 =
        Inr ((2025, 10, 27, 6, 32, 12, 0), (2020, 1, 1, 0, 0, 0, 0),
             ((2025, 10, 27, 7, 32, 12, 0), 3600))
   \<and> \<not> ((2025, 10, 27, 6, 32, 12, 0) \<le> ((2020, 1, 1, 0, 0, 0, 0) :: datetime))"
proof -
  have "compute_window_utc env_nov3 catalog_2020 =
        Inr ((2025, 10, 27, 6, 32, 12, 0), (2020, 1, 1, 0, 0, 0, 0),
             ((2025, 10, 27, 7, 32, 12, 0), 3600))"
    by (simp add: compute_window_utc_def window_start_nov3 catalog_2020_def py_max_def)
  then show ?thesis by (simp add: catalog_2020_def)
qed

text \<open>
  C1, amended. Whenever the window is computed, the catalog is non-empty, the end is its
  maximum instant and the start is the sunrise-derived start; start \<open>\<le>\<close> end holds exactly
  when some record of the catalog is at or after the start, which is exactly when the
  windowed catalog is non-empty.
\<close>

theorem start_le_end_iff_window_nonempty:
  assumes "compute_window_utc env images = Inr (start_utc, end_utc, start_local)"
  shows "images \<noteq> [] \<and> end_utc = Max (fst ` set images)
       \<and> window_start env = Inr (start_utc, start_local)
       \<and> (start_utc \<le> end_utc \<longleftrightarrow> in_window start_utc end_utc images \<noteq> [])
       \<and> (start_utc \<le> end_utc \<longleftrightarrow> (\<exists>r \<in> set images. start_utc \<le> fst r))"
proof -
  have ne: "images \<noteq> []"
  proof
    assume "images = []"
    with assms show False by (simp add: compute_window_utc_def)
  qed
  have cw: "compute_window_utc env images =
           (case window_start env of
              Inl e \<Rightarrow> Inl e
            | Inr (s, sl) \<Rightarrow> Inr (s, Max (fst ` set images), sl))"
    using ne py_max_Max [of "map fst images"]
    by (simp add: compute_window_utc_def split: sum.splits)
  have es: "end_utc = Max (fst ` set images) \<and> window_start env = Inr (start_utc, start_local)"
  proof (cases "window_start env")
    case (Inl e)
    with assms cw show ?thesis by simp
  next
    case (Inr pr)
    obtain s sl where pr: "pr = (s, sl)" by (cases pr)
    from assms cw Inr show ?thesis by (simp add: pr)
  qed
  then have e: "end_utc = Max (fst ` set images)" by (rule conjunct1)
  have fin: "finite (fst ` set images)" by simp
  from ne have nes: "fst ` set images \<noteq> {}" by simp
  have "Max (fst ` set images) \<in> fst ` set images"
    using fin nes by (rule Max_in)
  then obtain r0 where r0: "r0 \<in> set images" "fst r0 = end_utc"
    unfolding e [symmetric] by (auto simp only: image_iff)
  have ub: "fst r \<le> end_utc" if "r \<in> set images" for r
  proof -
    from that have "fst r \<in> fst ` set images" by (rule imageI)
    with fin show ?thesis unfolding e by (rule Max_ge)
  qed
  have a: "start_utc \<le> end_utc \<longleftrightarrow> (\<exists>r \<in> set images. start_utc \<le> fst r)"
  proof
    assume "start_utc \<le> end_utc"
    with r0 have "start_utc \<le> fst r0" by (simp only:)
    with r0(1) show "\<exists>r \<in> set images. start_utc \<le> fst r" by (rule rev_bexI)
  next
    assume "\<exists>r \<in> set images. start_utc \<le> fst r"
    then obtain r where r: "r \<in> set images" "start_utc \<le> fst r" by (rule bexE)
    from r(2) ub [OF r(1)] show "start_utc \<le> end_utc" by (rule order_trans)
  qed
  have b: "in_window start_utc end_utc images \<noteq> [] \<longleftrightarrow> (\<exists>r \<in> set images. start_utc \<le> fst r)"
  proof
    assume "in_window start_utc end_utc images \<noteq> []"
    then obtain r where "r \<in> set images" "case r of (ts, p) \<Rightarrow> start_utc \<le> ts \<and> ts \<le> end_utc"
      unfolding in_window_def filter_empty_conv by blast
    then have "r \<in> set images" "start_utc \<le> fst r"
      by (simp_all add: case_prod_beta)
    then show "\<exists>r \<in> set images. start_utc \<le> fst r" by (rule rev_bexI)
  next
    assume "\<exists>r \<in> set images. start_utc \<le> fst r"
    then obtain r where r: "r \<in> set images" "start_utc \<le> fst r" by (rule bexE)
    from r ub [OF r(1)] have "case r of (ts, p) \<Rightarrow> start_utc \<le> ts \<and> ts \<le> end_utc"
      by (simp add: case_prod_beta)
    with r(1) show "in_window start_utc end_utc images \<noteq> []"
      unfolding in_window_def filter_empty_conv by blast
  qed
  from a b have c: "start_utc \<le> end_utc \<longleftrightarrow> in_window start_utc end_utc images \<noteq> []"
    by (simp only:)
  from ne es c a show ?thesis by blast
qed

lemma window_nov3_two:
  "compute_window_utc env_nov3 window_two =
     Inr ((2025, 10, 27, 6, 32, 12, 0), (2025, 11, 2, 12, 0, 0, 0),
          ((2025, 10, 27, 7, 32, 12, 0), 3600))"
  by code_simp

theorem start_le_end_iff_window_nonempty_witness:
  "compute_window_utc env_nov3 window_two =
     Inr ((2025, 10, 27, 6, 32, 12, 0), (2025, 11, 2, 12, 0, 0, 0),
          ((2025, 10, 27, 7, 32, 12, 0), 3600))
   \<and> in_window (2025, 10, 27, 6, 32, 12, 0) (2025, 11, 2, 12, 0, 0, 0) window_two \<noteq> []"
proof -
  have "(2025, 10, 27, 6, 32, 12, 0) \<le> ((2025, 11, 2, 12, 0, 0, 0) :: datetime)"
    by simp
  with start_le_end_iff_window_nonempty [OF window_nov3_two]
  have "in_window (2025, 10, 27, 6, 32, 12, 0) (2025, 11, 2, 12, 0, 0, 0) window_two \<noteq> []"
    by blast
  with window_nov3_two show ?thesis by (rule conjI)
qed

subsection \<open>Driver\<close>

lemma first_good_None: "first_good env window = None \<longleftrightarrow> accepted env window = []"
proof (induction window)
  case Nil
  then show ?case by (simp add: accepted_def)
next
  case (Cons rec rest)
  obtain ts p where rec: "rec = (ts, p)" by (cases rec)
  obtain bad why where b: "is_bad_frame (imread env p) = (bad, why)"
    by (cases "is_bad_frame (imread env p)")
  show ?case
  proof (cases bad)
    case True
    with Cons b show ?thesis by (simp add: rec accepted_def)
  next
    case False
    with b have "\<not> fst (is_bad_frame (imread env p))" by simp
    then obtain fr where "imread env p = Some fr" using not_bad_Some by blast
    with False b show ?thesis by (simp add: rec accepted_def)
  qed
qed

lemma main_gather_raises:
  "gather_images fs = Inl e \<Longrightarrow> main env fs = Inl e"
  by (simp add: main_def)

lemma main_no_input:
  "gather_images fs = Inr [] \<Longrightarrow>
   main env fs = Inr \<lparr>exit_code = 1,
                     printed = [Msg ''No images found under /images/** or /images_5min''],
                     video = None\<rparr>"
  by (simp add: main_def)

lemma main_window_raises:
  "gather_images fs = Inr images \<Longrightarrow> images \<noteq> [] \<Longrightarrow> compute_window_utc env images = Inl e
   \<Longrightarrow> main env fs = Inl e"
  by (simp add: main_def)

lemma main_no_window:
  "gather_images fs = Inr images \<Longrightarrow> images \<noteq> []
   \<Longrightarrow> compute_window_utc env images = Inr (start_utc, end_utc, start_local)
   \<Longrightarrow> in_window start_utc end_utc images = []
   \<Longrightarrow> main env fs = Inr \<lparr>exit_code = 1,
                     printed = [Msg ''No images within the computed 7-day window.''],
                     video = None\<rparr>"
  by (simp add: main_def)

lemma main_no_frame:
  "gather_images fs = Inr images \<Longrightarrow> images \<noteq> []
   \<Longrightarrow> compute_window_utc env images = Inr (start_utc, end_utc, start_local)
   \<Longrightarrow> in_window start_utc end_utc images \<noteq> []
   \<Longrightarrow> accepted env (in_window start_utc end_utc images) = []
   \<Longrightarrow> main env fs = Inr \<lparr>exit_code = 1,
                     printed = [Msg ''No valid frames in window.''],
                     video = None\<rparr>"
  using first_good_None [of env "in_window start_utc end_utc images"]
  by (simp add: main_def)

lemma main_success:
  assumes g: "gather_images fs = Inr images" and ne: "images \<noteq> []"
    and cw: "compute_window_utc env images = Inr (start_utc, end_utc, start_local)"
    and w: "in_window start_utc end_utc images \<noteq> []"
    and acc: "accepted env (in_window start_utc end_utc images) \<noteq> []"
  shows "\<exists>w h out used skipped lo hi.
           main env fs = Inr \<lparr>exit_code = 0,
                     printed = [Saved start_local end_utc, UsedSkipped used skipped, FrameRange lo hi],
                     video = Some (w, h, out)\<rparr>
           \<and> out \<noteq> [] \<and> length out = used
           \<and> used + skipped = length (in_window start_utc end_utc images)"
proof -
  let ?window = "in_window start_utc end_utc images"
  let ?acc = "accepted env ?window"
  from acc obtain first where fg: "first_good env ?window = Some first"
    using first_good_None [of env ?window] by (cases "first_good env ?window") simp_all
  obtain out where
    asm: "assemble env (height first) (width first) ?window (0, 0, [], [])
            = Inr (length ?acc, length ?window - length ?acc, map fst ?acc, out)"
    and len: "length out = length ?acc"
    using assemble_result [of env "height first" "width first" ?window 0 0 "[]" "[]"] by auto
  from acc have pos: "length ?acc \<noteq> 0" by simp
  from acc have tne: "map fst ?acc \<noteq> []" by simp
  have le: "length ?acc \<le> length ?window" by (simp add: accepted_def)
  from len pos have one: "out \<noteq> []" by auto
  have sum: "length ?acc + (length ?window - length ?acc) = length ?window"
    using le by simp
  have "main env fs = Inr \<lparr>exit_code = 0,
           printed = [Saved start_local end_utc,
                      UsedSkipped (length ?acc) (length ?window - length ?acc),
                      FrameRange (Min (set (map fst ?acc))) (Max (set (map fst ?acc)))],
           video = Some (width first, height first, out)\<rparr>"
    unfolding main_def
    by (simp only: g ne cw w fg asm pos py_min_Min [OF tne] py_max_Max [OF tne]
        sum.case prod.case option.case Let_def if_False)
  with one len sum show ?thesis by blast
qed

lemma gather_one_capture:
  "gather_images fs_one_capture =
     Inr [((2025, 11, 1, 12, 0, 0, 0), ''images/w44/cam_20251101_120000.jpg'')]"
  by code_simp

lemma gather_month_13: "gather_images fs_month_13 = Inl ValueError"
  by code_simp

lemma extract_month_13:
  "extract_ts_from_name ''cam_20251301_120000.jpg'' = Some ''251301_120000''"
  by code_simp

lemma decode_month_13: "ts_to_datetime_utc ''251301_120000'' = Inl ValueError"
  by code_simp

lemma decode_day_00: "decode_name ''cam_251100_120000.jpg'' = Some (Inl ValueError)"
  by code_simp

lemma extract_notes: "extract_ts_from_name ''notes.jpg'' = None"
  by code_simp

lemma daylight_frame_good: "is_bad_frame (Some daylight_frame) = (False, no_reason)"
  by (simp add: is_bad_frame_def daylight_frame_def black_ratio_def white_ratio_def
      dom_ratio_def thresholds)

lemma window_nov3_one_capture:
  "compute_window_utc env_nov3 [((2025, 11, 1, 12, 0, 0, 0), ''images/w44/cam_20251101_120000.jpg'')] =
     Inr ((2025, 10, 27, 6, 32, 12, 0), (2025, 11, 1, 12, 0, 0, 0),
          ((2025, 10, 27, 7, 32, 12, 0), 3600))"
  by code_simp

lemma main_one_capture:
  "main env_nov3 fs_one_capture =
     Inr \<lparr>exit_code = 0,
          printed = [Saved ((2025, 10, 27, 7, 32, 12, 0), 3600) (2025, 11, 1, 12, 0, 0, 0),
                     UsedSkipped 1 0,
                     FrameRange (2025, 11, 1, 12, 0, 0, 0) (2025, 11, 1, 12, 0, 0, 0)],
          video = Some (640, 480, [daylight_frame])\<rparr>"
proof -
  let ?cat = "[((2025, 11, 1, 12, 0, 0, 0), ''images/w44/cam_20251101_120000.jpg'')] :: image_record list"
  have rd: "imread env_nov3 ''images/w44/cam_20251101_120000.jpg'' = Some daylight_frame"
    by (simp add: env_nov3_def)
  have w: "in_window (2025, 10, 27, 6, 32, 12, 0) (2025, 11, 1, 12, 0, 0, 0) ?cat = ?cat"
    by (simp add: in_window_def)
  have fg: "first_good env_nov3 ?cat = Some daylight_frame"
    by (simp add: rd daylight_frame_good)
  have dims: "height daylight_frame = 480" "width daylight_frame = 640"
    by (simp_all add: daylight_frame_def)
  have asm: "assemble env_nov3 480 640 ?cat (0, 0, [], []) =
               Inr (1, 0, [(2025, 11, 1, 12, 0, 0, 0)], [daylight_frame])"
    by (simp add: rd daylight_frame_good dims)
  show ?thesis
    unfolding main_def
    by (simp add: gather_one_capture window_nov3_one_capture w rd daylight_frame_good dims py_min_def py_max_def)
qed

text \<open>
  C9. The name \<^verbatim>\<open>cam_20251301_120000.jpg\<close> matches the 8-digit pattern and its month is
  13: the codec extracts the token and the conversion raises ValueError (as it does for
  day 00). The gatherer does not catch it, so gathering a storage that holds this file
  beside a good capture raises, and so does the run in every environment. A name without
  a token, \<^verbatim>\<open>notes.jpg\<close>, is skipped: the same storage without the month-13 file is
  gathered to a catalog of one record.
\<close>

theorem invalid_token_aborts_the_run:
  "extract_ts_from_name ''cam_20251301_120000.jpg'' = Some ''251301_120000''
   \<and> ts_to_datetime_utc ''251301_120000'' = Inl ValueError
   \<and> decode_name ''cam_251100_120000.jpg'' = Some (Inl ValueError)
   \<and> gather_images fs_month_13 = Inl ValueError
   \<and> (\<forall>env. main env fs_month_13 = Inl ValueError)
   \<and> extract_ts_from_name ''notes.jpg'' = None
   \<and> gather_images fs_one_capture =
        Inr [((2025, 11, 1, 12, 0, 0, 0), ''images/w44/cam_20251101_120000.jpg'')]"
  using extract_month_13 decode_month_13 decode_day_00 gather_month_13 extract_notes
    gather_one_capture main_gather_raises [OF gather_month_13]
  by (intro conjI allI)

theorem invalid_token_aborts_the_run_witness:
  "main env_nov3 fs_month_13 = Inl ValueError"
  using invalid_token_aborts_the_run by (elim conjE allE)

text \<open>
  C2, as stated, fails: the run on the storage with the month-13 file ends with an uncaught
  ValueError although none of the three conditions holds; without that file the same
  storage gives a run that writes a frame and exits 0.
\<close>

theorem fourth_fatal_condition:
  "main env_nov3 fs_month_13 = Inl ValueError
   \<and> \<not> no_input fs_month_13
   \<and> \<not> no_images_in_window env_nov3 fs_month_13
   \<and> \<not> no_frame_accepted env_nov3 fs_month_13
   \<and> main env_nov3 fs_one_capture =
       Inr \<lparr>exit_code = 0,
            printed = [Saved ((2025, 10, 27, 7, 32, 12, 0), 3600) (2025, 11, 1, 12, 0, 0, 0),
                       UsedSkipped 1 0,
                       FrameRange (2025, 11, 1, 12, 0, 0, 0) (2025, 11, 1, 12, 0, 0, 0)],
            video = Some (640, 480, [daylight_frame])\<rparr>"
  using main_gather_raises [OF gather_month_13, of env_nov3] main_one_capture
  by (simp add: no_input_def no_images_in_window_def no_frame_accepted_def gather_month_13)

text \<open>
  C2, amended. A run ends in one of three ways. It raises, exactly when gathering raises or
  the window computation raises. It returns status 1 with a single diagnostic line and
  without having opened the video writer, exactly when no input images are found, no
  images lie inside the computed window, or no frame of the window is accepted, each with
  its own line. Otherwise it returns status 0, and then at least one frame was written.
\<close>

lemmas condition_defs = run_raises_def no_input_def no_images_in_window_def no_frame_accepted_def

theorem main_exit_status:
  "(\<forall>e. (main env fs = Inl e) = run_raises env fs e)
   \<and> (\<forall>r. main env fs = Inr r \<longrightarrow>
          (exit_code r = 0 \<longrightarrow> (\<exists>w h out. video r = Some (w, h, out) \<and> out \<noteq> []))
        \<and> (exit_code r \<noteq> 0 \<longrightarrow> exit_code r = 1 \<and> video r = None \<and> (\<exists>m. printed r = [Msg m]))
        \<and> ((exit_code r \<noteq> 0)
             = (no_input fs \<or> no_images_in_window env fs \<or> no_frame_accepted env fs)))
   \<and> (no_input fs \<longrightarrow>
        main env fs = Inr \<lparr>exit_code = 1,
                          printed = [Msg ''No images found under /images/** or /images_5min''],
                          video = None\<rparr>)
   \<and> (no_images_in_window env fs \<longrightarrow>
        main env fs = Inr \<lparr>exit_code = 1,
                          printed = [Msg ''No images within the computed 7-day window.''],
                          video = None\<rparr>)
   \<and> (no_frame_accepted env fs \<longrightarrow>
        main env fs = Inr \<lparr>exit_code = 1,
                          printed = [Msg ''No valid frames in window.''],
                          video = None\<rparr>)"
proof (cases "gather_images fs")
  case (Inl e0)
  then show ?thesis
    by (simp add: main_gather_raises condition_defs)
next
  case g: (Inr images)
  show ?thesis
  proof (cases "images = []")
    case True
    with g have "gather_images fs = Inr []" by simp
    from main_no_input [OF this, of env] g True show ?thesis
      by (simp add: condition_defs)
  next
    case ne: False
    show ?thesis
    proof (cases "compute_window_utc env images")
      case (Inl e0)
      from main_window_raises [OF g ne Inl] g ne Inl show ?thesis
        by (simp add: condition_defs)
    next
      case (Inr triple)
      obtain start_utc end_utc start_local where "triple = (start_utc, end_utc, start_local)"
        by (cases triple)
      with Inr have cw: "compute_window_utc env images = Inr (start_utc, end_utc, start_local)"
        by simp
      show ?thesis
      proof (cases "in_window start_utc end_utc images = []")
        case True
        from main_no_window [OF g ne cw True] g ne cw True show ?thesis
          by (simp add: condition_defs)
      next
        case w: False
        show ?thesis
        proof (cases "accepted env (in_window start_utc end_utc images) = []")
          case True
          from main_no_frame [OF g ne cw w True] g ne cw w True show ?thesis
            by (simp add: condition_defs)
        next
          case acc: False
          from main_success [OF g ne cw w acc] obtain wd h out used skipped lo hi where
            m: "main env fs = Inr \<lparr>exit_code = 0,
                     printed = [Saved start_local end_utc, UsedSkipped used skipped, FrameRange lo hi],
                     video = Some (wd, h, out)\<rparr>"
            and out: "out \<noteq> []"
            by blast
          from m out g ne cw w acc show ?thesis
            by (simp add: condition_defs)
        qed
      qed
    qed
  qed
qed

theorem main_exit_status_witness:
  "main env_nov3 fs_one_capture =
       Inr \<lparr>exit_code = 0,
            printed = [Saved ((2025, 10, 27, 7, 32, 12, 0), 3600) (2025, 11, 1, 12, 0, 0, 0),
                       UsedSkipped 1 0,
                       FrameRange (2025, 11, 1, 12, 0, 0, 0) (2025, 11, 1, 12, 0, 0, 0)],
            video = Some (640, 480, [daylight_frame])\<rparr>
   \<and> \<not> (no_input fs_one_capture \<or> no_images_in_window env_nov3 fs_one_capture
          \<or> no_frame_accepted env_nov3 fs_one_capture)
   \<and> \<not> run_raises env_nov3 fs_one_capture ValueError"
  using main_exit_status [of env_nov3 fs_one_capture] main_one_capture
  by simp

end
